theory Spec2Isabelle
  imports Complex_Main "HOL-Library.Multiset"
begin

section \<open>Futures position analysis: data model\<close>

text \<open>
  The development follows \<^verbatim>\<open>futures_analyzer.py\<close> and
  \<^verbatim>\<open>performance_optimizer.py\<close>. Python floats are modelled by exact
  rationals (\<^typ>\<open>rat\<close>): rounding of float arithmetic is not represented.
  The four signal texts of the source are the constructors of \<open>direction\<close>:
  \<open>Long\<close> is the source's "kan duo" literal, \<open>Short\<close> "kan kong",
  \<open>Neutral\<close> "zhong xing" and \<open>Error\<close> "cuo wu".
\<close>

datatype direction = Long | Short | Neutral | Error

text \<open>Exceptions a strategy body can raise; each is caught by the body's own handler.\<close>

datatype py_error = KeyError | TypeError | ValueError

text \<open>
  A value stored under a key of the \<open>data\<close> dictionary and passed to Python's
  \<open>float()\<close>: a number, the float nan, a text that is no number (\<open>float()\<close>
  raises \<open>ValueError\<close>), or an object of a type \<open>float()\<close> does not take, such
  as \<open>None\<close> or a list (\<open>TypeError\<close>).
\<close>

datatype pyobj = Number rat | NotANumber | BadText | BadObject

text \<open>A Python float: a finite value or nan. Comparisons with nan are false.\<close>

datatype pyfloat = Fin rat | NaN

fun py_float :: "pyobj \<Rightarrow> py_error + pyfloat" where
  "py_float (Number r) = Inr (Fin r)"
| "py_float NotANumber = Inr NaN"
| "py_float BadText = Inl ValueError"
| "py_float BadObject = Inl TypeError"

fun py_abs :: "pyfloat \<Rightarrow> pyfloat" where
  "py_abs (Fin r) = Fin \<bar>r\<bar>"
| "py_abs NaN = NaN"

fun py_add :: "pyfloat \<Rightarrow> pyfloat \<Rightarrow> pyfloat" where
  "py_add (Fin a) (Fin b) = Fin (a + b)"
| "py_add _ _ = NaN"

fun py_gt0 :: "pyfloat \<Rightarrow> bool" where
  "py_gt0 (Fin r) = (r > 0)"
| "py_gt0 NaN = False"

fun py_lt0 :: "pyfloat \<Rightarrow> bool" where
  "py_lt0 (Fin r) = (r < 0)"
| "py_lt0 NaN = False"

text \<open>
  A cell of a sheet as \<open>pd.read_excel\<close> delivers it: a number, a text, or a
  blank (pandas' NaN).
\<close>

datatype cell = Num rat | Text string | Blank

text \<open>
  A row of the processed table \<open>raw_data\<close>, restricted to the seven canonical columns
  the strategies read. The numeric columns have gone through
  \<open>pd.to_numeric(errors='coerce')\<close>, so each holds a number or NaN (\<open>None\<close>).
\<close>

record position_row =
  long_party_name :: cell
  long_open_interest :: "rat option"
  long_open_interest_chg :: "rat option"
  short_party_name :: cell
  short_open_interest :: "rat option"
  short_open_interest_chg :: "rat option"
  vol :: "rat option"

text \<open>
  The dictionary handed to the strategies. A field is \<open>None\<close> when the key is absent
  (for \<open>raw_data\<close>: also when the table lacks a canonical column), which makes the
  lookup raise \<open>KeyError\<close>.
\<close>

record data =
  total_long :: "pyobj option"
  total_short :: "pyobj option"
  total_long_chg :: "pyobj option"
  total_short_chg :: "pyobj option"
  raw_data :: "position_row list option"

text \<open>Aggregated figures of one watched seat (the values of \<open>seat_stats\<close>).\<close>

record seat_stat =
  long_chg :: rat
  short_chg :: rat
  long_pos :: rat
  short_pos :: rat

text \<open>
  The rationale text of a signal. Each constructor is one format string of the source;
  its arguments are the numbers the string is formatted with.
\<close>

datatype reason =
    LongUpShortDown pyfloat pyfloat
  | LongDownShortUp pyfloat pyfloat
  | LongShortChange pyfloat pyfloat
  | TooFewValidSeats
  | TooFewGroupValues
  | MsdLong rat
  | MsdShort rat
  | MsdNone rat
  | NoRetailPosition
  | RetailShortIncrease rat rat
  | RetailLongIncrease rat rat
  | RetailMismatch "(string \<times> rat \<times> rat) list"
  | RetailNoChange
  | DataError py_error

section \<open>Strategy: power change\<close>

definition lookup :: "'a option \<Rightarrow> py_error + 'a" where
  "lookup v = (case v of None \<Rightarrow> Inl KeyError | Some x \<Rightarrow> Inr x)"

text \<open>The \<open>try\<close> block of \<open>analyze_power_change\<close>.\<close>

definition power_change_body :: "data \<Rightarrow> py_error + (direction \<times> reason \<times> pyfloat)" where
  "power_change_body d =
     (case lookup (total_long_chg d) of Inl e \<Rightarrow> Inl e | Inr lv \<Rightarrow>
      case py_float lv of Inl e \<Rightarrow> Inl e | Inr lchg \<Rightarrow>
      case lookup (total_short_chg d) of Inl e \<Rightarrow> Inl e | Inr sv \<Rightarrow>
      case py_float sv of Inl e \<Rightarrow> Inl e | Inr schg \<Rightarrow>
      let strength = py_add (py_abs lchg) (py_abs schg) in
      if py_gt0 lchg \<and> py_lt0 schg then
        Inr (Long, LongUpShortDown lchg (py_abs schg), strength)
      else if py_lt0 lchg \<and> py_gt0 schg then
        Inr (Short, LongDownShortUp (py_abs lchg) schg, strength)
      else
        Inr (Neutral, LongShortChange lchg schg, Fin 0))"

text \<open>\<open>analyze_power_change\<close>: the body under its \<open>except Exception\<close> handler.\<close>

definition analyze_power_change :: "data \<Rightarrow> direction \<times> reason \<times> pyfloat" where
  "analyze_power_change d =
     (case power_change_body d of
        Inl e \<Rightarrow> (Error, DataError e, Fin 0)
      | Inr r \<Rightarrow> r)"

section \<open>Term structure\<close>

text \<open>
  The loop of \<open>_determine_structure_strict\<close> over \<open>i\<close> in
  \<open>range(len(prices) - 1)\<close>, carrying the two flags
  \<open>(is_strictly_decreasing, is_strictly_increasing)\<close>.
\<close>

fun structure_flags :: "rat list \<Rightarrow> bool \<times> bool \<Rightarrow> bool \<times> bool" where
  "structure_flags (p # q # ps) (dec, inc) =
     structure_flags (q # ps)
       (if p \<le> q then False else dec, if p \<ge> q then False else inc)"
| "structure_flags _ flags = flags"

definition determine_structure_strict :: "rat list \<Rightarrow> string" where
  "determine_structure_strict prices =
     (if length prices < 2 then ''flat''
      else case structure_flags prices (True, True) of
        (dec, inc) \<Rightarrow> if dec then ''back'' else if inc then ''contango'' else ''flat'')"

section \<open>Strategy: spider web\<close>

text \<open>
  A row that passes the filter of \<open>analyze_spider_web\<close> (volume present and
  positive, both open-interest fields present), together with the three numbers the
  strategy computes with.
\<close>

record seat =
  seat_row :: position_row
  seat_long :: rat
  seat_short :: rat
  seat_vol :: rat

definition valid_seat :: "position_row \<Rightarrow> seat option" where
  "valid_seat r =
     (case vol r of None \<Rightarrow> None | Some v \<Rightarrow>
        if v > 0 then
          (case long_open_interest r of None \<Rightarrow> None | Some l \<Rightarrow>
           case short_open_interest r of None \<Rightarrow> None | Some s \<Rightarrow>
             Some \<lparr>seat_row = r, seat_long = l, seat_short = s, seat_vol = v\<rparr>)
        else None)"

definition valid_seats :: "position_row list \<Rightarrow> seat list" where
  "valid_seats df = List.map_filter valid_seat df"

text \<open>The column \<open>stat\<close>: \<open>(long + short) / vol\<close>, on rows with \<open>vol > 0\<close>.\<close>

definition stat :: "seat \<Rightarrow> rat" where
  "stat s = (seat_long s + seat_short s) / seat_vol s"

text \<open>
  \<open>sort_values('stat', ascending=False)\<close>. Rows of equal \<open>stat\<close> are kept in
  their original order here; what pandas does with them depends on its sorting routine,
  and no property below depends on it.
\<close>

definition sort_by_stat :: "seat list \<Rightarrow> seat list" where
  "sort_by_stat seats = sort_key (\<lambda>s. - stat s) seats"

text \<open>
  \<open>max(2, int(len(sorted_seats) * 0.4))\<close>: \<open>int\<close> truncates, and the product is
  not negative, so the truncation is the floor. (The binary float \<open>0.4\<close> lies
  slightly above 2/5; the truncated float product equals the floor of the exact product
  for every length below \<open>10^15\<close>.)
\<close>

definition cutoff_index :: "nat \<Rightarrow> nat" where
  "cutoff_index n = max 2 (nat \<lfloor>of_nat n * (4 / 10 :: rat)\<rfloor>)"

text \<open>The informed rows \<open>its\<close> and the uninformed rows \<open>uts\<close>.\<close>

definition spider_split :: "position_row list \<Rightarrow> seat list \<times> seat list" where
  "spider_split df =
     (let sorted_seats = sort_by_stat (valid_seats df);
          k = cutoff_index (length sorted_seats)
      in (take k sorted_seats, drop k sorted_seats))"

text \<open>
  The two loops that fill \<open>its_values\<close> and \<open>uts_values\<close>: rows with a positive
  total position contribute \<open>(long - short) / (long + short)\<close>.
\<close>

definition group_values :: "seat list \<Rightarrow> rat list" where
  "group_values seats =
     map (\<lambda>s. (seat_long s - seat_short s) / (seat_long s + seat_short s))
       (filter (\<lambda>s. seat_long s + seat_short s > 0) seats)"

text \<open>\<open>np.mean\<close> of a non-empty list.\<close>

definition mean :: "rat list \<Rightarrow> rat" where
  "mean xs = sum_list xs / of_nat (length xs)"

definition spider_web_body :: "data \<Rightarrow> py_error + (direction \<times> reason \<times> pyfloat)" where
  "spider_web_body d =
     (case lookup (raw_data d) of Inl e \<Rightarrow> Inl e | Inr df \<Rightarrow>
      if length (valid_seats df) < 5 then Inr (Neutral, TooFewValidSeats, Fin 0)
      else
        case spider_split df of (its, uts) \<Rightarrow>
        let its_values = group_values its;
            uts_values = group_values uts
        in if its_values = [] \<or> uts_values = [] then Inr (Neutral, TooFewGroupValues, Fin 0)
           else
             let msd = mean its_values - mean uts_values
             in if msd > 5 / 100 then Inr (Long, MsdLong msd, Fin \<bar>msd\<bar>)
                else if msd < - (5 / 100) then Inr (Short, MsdShort msd, Fin \<bar>msd\<bar>)
                else Inr (Neutral, MsdNone msd, Fin \<bar>msd\<bar>))"

definition analyze_spider_web :: "data \<Rightarrow> direction \<times> reason \<times> pyfloat" where
  "analyze_spider_web d =
     (case spider_web_body d of
        Inl e \<Rightarrow> (Error, DataError e, Fin 0)
      | Inr r \<Rightarrow> r)"

section \<open>Strategy: retail reverse\<close>

text \<open>\<open>x if pd.notna(x) else 0\<close>.\<close>

definition notna_or_0 :: "rat option \<Rightarrow> rat" where
  "notna_or_0 x = (case x of None \<Rightarrow> 0 | Some v \<Rightarrow> v)"

text \<open>\<open>name in self.retail_seats\<close>: only a text can equal a seat name.\<close>

definition watched :: "string list \<Rightarrow> cell \<Rightarrow> string option" where
  "watched retail_seats c =
     (case c of Text s \<Rightarrow> if s \<in> set retail_seats then Some s else None | _ \<Rightarrow> None)"

definition zero_stat :: seat_stat where
  "zero_stat = \<lparr>long_chg = 0, short_chg = 0, long_pos = 0, short_pos = 0\<rparr>"

text \<open>
  One round of the loop over the rows of \<open>raw_data\<close>. The dictionary
  \<open>seat_stats\<close> has exactly the watched names as keys, and a row only touches the
  entry of a watched name, so the dictionary is a function from names to figures whose
  value outside the watch-list is never read.
\<close>

definition add_row :: "string list \<Rightarrow> (string \<Rightarrow> seat_stat) \<Rightarrow> position_row \<Rightarrow> (string \<Rightarrow> seat_stat)" where
  "add_row retail_seats st r =
     (let st1 =
        (case watched retail_seats (long_party_name r) of
           None \<Rightarrow> st
         | Some n \<Rightarrow> st(n := (st n)
             \<lparr>long_chg := long_chg (st n) + notna_or_0 (long_open_interest_chg r),
              long_pos := long_pos (st n) + notna_or_0 (long_open_interest r)\<rparr>))
      in case watched retail_seats (short_party_name r) of
           None \<Rightarrow> st1
         | Some n \<Rightarrow> st1(n := (st1 n)
             \<lparr>short_chg := short_chg (st1 n) + notna_or_0 (short_open_interest_chg r),
              short_pos := short_pos (st1 n) + notna_or_0 (short_open_interest r)\<rparr>))"

definition seat_stats :: "string list \<Rightarrow> position_row list \<Rightarrow> (string \<Rightarrow> seat_stat)" where
  "seat_stats retail_seats df = foldl (add_row retail_seats) (\<lambda>_. zero_stat) df"

text \<open>
  The keys of a dictionary built from a list of names, in insertion order: a repeated
  name keeps the place of its first occurrence.
\<close>

fun dict_keys :: "string list \<Rightarrow> string list" where
  "dict_keys [] = []"
| "dict_keys (n # ns) = n # filter (\<lambda>m. m \<noteq> n) (dict_keys ns)"

definition active_seats :: "string list \<Rightarrow> position_row list \<Rightarrow> (string \<times> seat_stat) list" where
  "active_seats retail_seats df =
     map (\<lambda>n. (n, seat_stats retail_seats df n))
       (filter (\<lambda>n. long_pos (seat_stats retail_seats df n) > 0 \<or>
                    short_pos (seat_stats retail_seats df n) > 0)
          (dict_keys retail_seats))"

text \<open>\<open>df[col].sum()\<close>, which skips NaN.\<close>

definition column_sum :: "(position_row \<Rightarrow> rat option) \<Rightarrow> position_row list \<Rightarrow> rat" where
  "column_sum col df = sum_list (map (\<lambda>r. notna_or_0 (col r)) df)"

definition position_ratio :: "(string \<times> seat_stat) list \<Rightarrow> position_row list \<Rightarrow> rat" where
  "position_ratio active df =
     (let total_position = column_sum long_open_interest df + column_sum short_open_interest df;
          retail_position = sum_list (map (\<lambda>(n, st). long_pos st + short_pos st) active)
      in if total_position > 0 then retail_position / total_position else 0)"

definition retail_reverse_body ::
  "string list \<Rightarrow> data \<Rightarrow> py_error + (direction \<times> reason \<times> pyfloat \<times> (string \<times> seat_stat) list)" where
  "retail_reverse_body retail_seats d =
     (case lookup (raw_data d) of Inl e \<Rightarrow> Inl e | Inr df \<Rightarrow>
      let active = active_seats retail_seats df in
      if active = [] then Inr (Neutral, NoRetailPosition, Fin 0, [])
      else
        let long_signal_conditions =
              map (\<lambda>(n, st). short_chg st > 0 \<and> long_chg st \<le> 0) active;
            short_signal_conditions =
              map (\<lambda>(n, st). long_chg st > 0 \<and> short_chg st \<le> 0) active;
            ratio = position_ratio active df
        in if length active > 0 \<and> list_all id long_signal_conditions then
             Inr (Long,
                  RetailShortIncrease
                    (sum_list (map (\<lambda>(n, st). short_chg st)
                       (filter (\<lambda>(n, st). short_chg st > 0) active))) ratio,
                  Fin ratio, active)
           else if length active > 0 \<and> list_all id short_signal_conditions then
             Inr (Short,
                  RetailLongIncrease
                    (sum_list (map (\<lambda>(n, st). long_chg st)
                       (filter (\<lambda>(n, st). long_chg st > 0) active))) ratio,
                  Fin ratio, active)
           else
             let reason_parts =
                   map (\<lambda>(n, st). (n, long_chg st, short_chg st))
                     (filter (\<lambda>(n, st). long_chg st \<noteq> 0 \<or> short_chg st \<noteq> 0) active)
             in Inr (Neutral,
                     if reason_parts \<noteq> [] then RetailMismatch reason_parts else RetailNoChange,
                     Fin 0, active))"

definition analyze_retail_reverse ::
  "string list \<Rightarrow> data \<Rightarrow> direction \<times> reason \<times> pyfloat \<times> (string \<times> seat_stat) list" where
  "analyze_retail_reverse retail_seats d =
     (case retail_reverse_body retail_seats d of
        Inl e \<Rightarrow> (Error, DataError e, Fin 0, [])
      | Inr r \<Rightarrow> r)"

section \<open>Retail reverse: the aggregated figures of a seat\<close>







section \<open>Cache store\<close>

text \<open>
  \<open>PerformanceOptimizer\<close> keeps one file \<open><key>.pkl\<close> per cache key in its cache
  directory. The directory is a map from keys to files; a file is its unpickled content
  and its modification time. Times are seconds on one clock. The file system is taken to
  be reliable and every cached value to survive \<open>pickle\<close>: a failed write or read, which
  \<open>save_to_cache\<close> and \<open>load_from_cache\<close> both turn into a warning, is not
  represented. A cached value is never Python's \<open>None\<close> (\<open>smart_cache\<close> does not
  store it), so \<open>None\<close> below is always "absent".
\<close>

record 'v cache_file =
  payload :: 'v
  mtime :: rat

type_synonym 'v cache_dir = "string \<rightharpoonup> 'v cache_file"

text \<open>\<open>timedelta(hours=h)\<close> and \<open>timedelta(days=d)\<close> in seconds.\<close>

definition hours :: "rat \<Rightarrow> rat" where
  "hours h = h * 3600"

definition days :: "rat \<Rightarrow> rat" where
  "days d = d * 86400"

definition is_cache_valid :: "'v cache_dir \<Rightarrow> rat \<Rightarrow> string \<Rightarrow> rat \<Rightarrow> bool" where
  "is_cache_valid fs now key max_age_hours =
     (case fs key of
        None \<Rightarrow> False
      | Some f \<Rightarrow> now - mtime f < hours max_age_hours)"

text \<open>\<open>save_to_cache\<close> writes the file; its modification time is the time of writing.\<close>

definition save_to_cache :: "'v cache_dir \<Rightarrow> rat \<Rightarrow> string \<Rightarrow> 'v \<Rightarrow> 'v cache_dir" where
  "save_to_cache fs now key v = fs(key \<mapsto> \<lparr>payload = v, mtime = now\<rparr>)"

text \<open>
  \<open>load_from_cache\<close> calls \<open>is_cache_valid\<close> with its default age of 24 hours. It
  returns the value read, or \<open>None\<close>, together with the directory as it leaves it.
\<close>

definition load_from_cache :: "'v cache_dir \<Rightarrow> rat \<Rightarrow> string \<Rightarrow> 'v option \<times> 'v cache_dir" where
  "load_from_cache fs now key =
     (if is_cache_valid fs now key 24
      then (case fs key of None \<Rightarrow> (None, fs) | Some f \<Rightarrow> (Some (payload f), fs))
      else (None, fs))"

text \<open>\<open>clear_old_cache\<close> removes every file last written before the cut-off time.\<close>

definition clear_old_cache :: "'v cache_dir \<Rightarrow> rat \<Rightarrow> rat \<Rightarrow> 'v cache_dir" where
  "clear_old_cache fs now max_age_days =
     (let cutoff_time = now - days max_age_days
      in (\<lambda>key. case fs key of
            None \<Rightarrow> None
          | Some f \<Rightarrow> if mtime f < cutoff_time then None else Some f))"

section \<open>Term structure: ordering contracts by month\<close>


definition is_digit :: "char \<Rightarrow> bool" where
  "is_digit c = (c \<in> set ''0123456789'')"

definition digit_value :: "char \<Rightarrow> nat" where
  "digit_value c = of_char c - 48"

text \<open>
  \<open>re.search(r'(\d{4})$', symbol)\<close>, returning \<open>group(1)\<close>. In Python's \<open>re\<close>
  the anchor \<open>$\<close> matches at the end of the text and also just before a line feed
  that is the last character of the text. So the four digits are the last four
  characters of the text, or the last four characters before its final line feed.
\<close>

definition match_yymm :: "string \<Rightarrow> string option" where
  "match_yymm symb =
     (let body = (if symb \<noteq> [] \<and> last symb = CHR 0x0A then butlast symb else symb);
          yymm = drop (length body - 4) body
      in if 4 \<le> length body \<and> list_all is_digit yymm then Some yymm else None)"

text \<open>\<open>int(text)\<close> on a text of decimal digits.\<close>

definition int_of_digits :: "string \<Rightarrow> nat" where
  "int_of_digits ds = foldl (\<lambda>n c. 10 * n + digit_value c) 0 ds"

definition extract_month_info :: "string \<Rightarrow> nat" where
  "extract_month_info symb =
     (case match_yymm symb of
        Some yymm \<Rightarrow>
          let year = int_of_digits (take 2 yymm);
              month = int_of_digits (drop 2 yymm);
              year' = (if year < 50 then year + 2000 else year + 1900)
          in year' * 100 + month
      | None \<Rightarrow> 999999)"


section \<open>Signal resonance\<close>

text \<open>
  One entry of a strategy's signal list in the summary, and the two lists of a strategy
  (each sorted by strength, strongest first, by \<open>_generate_summary\<close>).
\<close>

record signal =
  contract :: string
  strength :: pyfloat
  reason :: reason

record signal_lists =
  long :: "signal list"
  short :: "signal list"

text \<open>The value the counting dictionaries hold for a symbol.\<close>

record info =
  count_n :: nat
  strategies :: "string list"
  contracts :: "string list"

text \<open>
  Contract identifiers are modelled over ASCII: \<open>str.isalpha\<close> holds of the 52
  letters, \<open>str.upper\<close> maps a lower-case letter to its capital.
\<close>

definition lower_case :: string where
  "lower_case = ''abcdefghijklmnopqrstuvwxyz''"

definition upper_case :: string where
  "upper_case = ''ABCDEFGHIJKLMNOPQRSTUVWXYZ''"

definition isalpha :: "char \<Rightarrow> bool" where
  "isalpha c = (c \<in> set lower_case \<or> c \<in> set upper_case)"

definition upper :: "char \<Rightarrow> char" where
  "upper c = (case map_of (zip lower_case upper_case) c of Some u \<Rightarrow> u | None \<Rightarrow> c)"

text \<open>\<open>contract.split('_')[-1]\<close>: the text after the last underscore.\<close>

definition last_part :: "string \<Rightarrow> string" where
  "last_part s = rev (takeWhile (\<lambda>c. c \<noteq> CHR ''_'') (rev s))"

definition extract_symbol :: "string \<Rightarrow> string" where
  "extract_symbol c =
     (let symbol_part = (if CHR ''_'' \<in> set c then last_part c else c);
          symb = map upper (filter isalpha symbol_part)
      in if symb \<noteq> [] then symb else c)"

text \<open>The body of the two inner loops: one signal of one strategy is counted.\<close>

definition count_signal :: "string \<Rightarrow> (string \<rightharpoonup> info) \<Rightarrow> signal \<Rightarrow> (string \<rightharpoonup> info)" where
  "count_signal strategy_name symbol_count sg =
     (let symb = extract_symbol (contract sg);
          old = (case symbol_count symb of
                   None \<Rightarrow> \<lparr>count_n = 0, strategies = [], contracts = []\<rparr>
                 | Some i \<Rightarrow> i)
      in symbol_count(symb \<mapsto>
           \<lparr>count_n = count_n old + 1,
            strategies = strategies old @ [strategy_name],
            contracts = contracts old @ [contract sg]\<rparr>))"

text \<open>
  The outer loop over the strategies, for one side (\<open>long\<close> or \<open>short\<close>); of each
  list only the first ten signals are read (\<open>[:10]\<close>).
\<close>

definition symbol_counts ::
  "(signal_lists \<Rightarrow> signal list) \<Rightarrow> (string \<times> signal_lists) list \<Rightarrow> (string \<rightharpoonup> info)" where
  "symbol_counts side strategy_signals =
     foldl (\<lambda>symbol_count (strategy_name, signals).
              foldl (count_signal strategy_name) symbol_count (take 10 (side signals)))
       Map.empty strategy_signals"

text \<open>The dictionary comprehension that keeps the entries with \<open>count >= 2\<close>.\<close>

definition keep_resonance :: "(string \<rightharpoonup> info) \<Rightarrow> (string \<rightharpoonup> info)" where
  "keep_resonance symbol_count =
     (\<lambda>symb. case symbol_count symb of
        None \<Rightarrow> None
      | Some i \<Rightarrow> if count_n i \<ge> 2 then Some i else None)"

text \<open>\<open>_calculate_signal_resonance\<close>: the pair of its \<open>'long'\<close> and \<open>'short'\<close> results.\<close>

definition calculate_signal_resonance ::
  "(string \<times> signal_lists) list \<Rightarrow> (string \<rightharpoonup> info) \<times> (string \<rightharpoonup> info)" where
  "calculate_signal_resonance strategy_signals =
     (keep_resonance (symbol_counts long strategy_signals),
      keep_resonance (symbol_counts short strategy_signals))"

text \<open>
  In the specification's words: the strategies that contributed at least one of their
  first ten signals of a side for a symbol. The strategy names are the keys of a
  dictionary, hence distinct, so the length of this list is the number of distinct
  contributing strategies.
\<close>

definition contributing_strategies ::
  "(signal_lists \<Rightarrow> signal list) \<Rightarrow> (string \<times> signal_lists) list \<Rightarrow> string \<Rightarrow> string list" where
  "contributing_strategies side strategy_signals symb =
     map fst
       (filter (\<lambda>(strategy_name, signals).
                  \<exists>sg \<in> set (take 10 (side signals)). extract_symbol (contract sg) = symb)
          strategy_signals)"

section \<open>Processing the position table of a contract\<close>

text \<open>
  A sheet as read by \<open>pd.read_excel\<close>: its column names and its rows, each row
  listing its cells in the order of the columns. The column names of a sheet are
  pairwise distinct (\<open>read_excel\<close> makes them so), and a sheet uses one naming scheme,
  so that renaming keeps them distinct.
\<close>

record dataframe =
  columns :: "string list"
  rows :: "cell list list"

text \<open>The column mapping of \<open>_standardize_columns\<close>.\<close>

definition column_names :: "(string \<times> string) list" where
  "column_names =
     [(''g_party_n'', ''long_party_name''),
      (''open_inten'', ''long_open_interest''),
      (''inten_intert'', ''long_open_interest_chg''),
      (''t_party_n'', ''short_party_name''),
      (''open_inten.1'', ''short_open_interest''),
      (''inten_intert.1'', ''short_open_interest_chg''),
      (''vol'', ''vol'')]"

definition standardize_columns :: "dataframe \<Rightarrow> dataframe" where
  "standardize_columns df =
     (if ''g_party_n'' \<in> set (columns df)
      then df\<lparr>columns := map (\<lambda>c. case map_of column_names c of Some n \<Rightarrow> n | None \<Rightarrow> c)
                              (columns df)\<rparr>
      else df)"

definition required_columns :: "string list" where
  "required_columns =
     [''long_party_name'', ''long_open_interest'', ''long_open_interest_chg'',
      ''short_party_name'', ''short_open_interest'', ''short_open_interest_chg'', ''vol'']"

text \<open>The cell of a row under a column name; a row too short for the column is blank.\<close>

definition cell_at :: "string list \<Rightarrow> cell list \<Rightarrow> string \<Rightarrow> cell" where
  "cell_at cols r name = (case map_of (zip cols r) name of Some c \<Rightarrow> c | None \<Rightarrow> Blank)"

text \<open>
  The conversion of one cell of a numeric column:
  \<open>astype(str).str.replace(',', '').str.replace(' ', '').replace({'nan': None})\<close>
  followed by \<open>pd.to_numeric(errors='coerce')\<close>. The parser of pandas is not part of
  the repository; it is the parameter \<open>to_numeric\<close>, which gives the number a text
  denotes, or \<open>None\<close> for NaN. A number is printed and parsed back to itself.
\<close>

definition coerce :: "(string \<Rightarrow> rat option) \<Rightarrow> cell \<Rightarrow> rat option" where
  "coerce to_numeric c =
     (case c of
        Num x \<Rightarrow> Some x
      | Blank \<Rightarrow> None
      | Text s \<Rightarrow>
          let cleaned = filter (\<lambda>ch. ch \<noteq> CHR '','' \<and> ch \<noteq> CHR '' '') s
          in if cleaned = ''nan'' then None else to_numeric cleaned)"

definition to_row :: "(string \<Rightarrow> rat option) \<Rightarrow> string list \<Rightarrow> cell list \<Rightarrow> position_row" where
  "to_row to_numeric cols r =
     \<lparr>long_party_name = cell_at cols r ''long_party_name'',
      long_open_interest = coerce to_numeric (cell_at cols r ''long_open_interest''),
      long_open_interest_chg = coerce to_numeric (cell_at cols r ''long_open_interest_chg''),
      short_party_name = cell_at cols r ''short_party_name'',
      short_open_interest = coerce to_numeric (cell_at cols r ''short_open_interest''),
      short_open_interest_chg = coerce to_numeric (cell_at cols r ''short_open_interest_chg''),
      vol = coerce to_numeric (cell_at cols r ''vol'')\<rparr>"

text \<open>
  \<open>process_position_data\<close>. \<open>None\<close> is the source's \<open>return None\<close>. On a sheet
  with distinct column names nothing in the \<open>try\<close> block raises (the conversion
  coerces instead of raising), so the handler, which also returns \<open>None\<close>, has no
  branch here.
\<close>

definition process_position_data :: "(string \<Rightarrow> rat option) \<Rightarrow> dataframe \<Rightarrow> data option" where
  "process_position_data to_numeric df0 =
     (let df = standardize_columns df0
      in if \<not> list_all (\<lambda>col. col \<in> set (columns df)) required_columns then None
         else
           let raw = map (to_row to_numeric (columns df)) (rows df)
           in Some \<lparr>total_long = Some (Number (column_sum long_open_interest raw)),
                     total_short = Some (Number (column_sum short_open_interest raw)),
                     total_long_chg = Some (Number (column_sum long_open_interest_chg raw)),
                     total_short_chg = Some (Number (column_sum short_open_interest_chg raw)),
                     raw_data = Some raw\<rparr>)"

text \<open>
  The entry \<open>_analyze_positions\<close> stores for a contract: the three signals, and the
  processed data from which it copies \<open>raw_data\<close> and the four totals.
\<close>

record contract_result =
  power_change :: "direction \<times> reason \<times> pyfloat"
  spider_web :: "direction \<times> reason \<times> pyfloat"
  retail_reverse :: "direction \<times> reason \<times> pyfloat \<times> (string \<times> seat_stat) list"
  processed :: data

text \<open>
  One round of the loop of \<open>_analyze_positions\<close> (progress reporting left out): a
  contract whose processing gives \<open>None\<close> is passed over by \<open>continue\<close>.
\<close>

definition analyze_contract ::
  "(string \<Rightarrow> rat option) \<Rightarrow> string list \<Rightarrow> (string \<rightharpoonup> contract_result) \<Rightarrow>
   string \<times> dataframe \<Rightarrow> (string \<rightharpoonup> contract_result)" where
  "analyze_contract to_numeric retail_seats results entry =
     (case entry of (contract_name, df) \<Rightarrow>
        case process_position_data to_numeric df of
          None \<Rightarrow> results
        | Some processed_data \<Rightarrow>
            results(contract_name \<mapsto>
              \<lparr>power_change = analyze_power_change processed_data,
               spider_web = analyze_spider_web processed_data,
               retail_reverse = analyze_retail_reverse retail_seats processed_data,
               processed = processed_data\<rparr>))"

text \<open>
  \<open>_analyze_positions\<close>. The dictionary \<open>position_data\<close> is the list of its items;
  its keys are distinct.
\<close>

definition analyze_positions ::
  "(string \<Rightarrow> rat option) \<Rightarrow> string list \<Rightarrow> (string \<times> dataframe) list \<Rightarrow>
   (string \<rightharpoonup> contract_result)" where
  "analyze_positions to_numeric retail_seats position_data =
     foldl (analyze_contract to_numeric retail_seats) Map.empty position_data"

section \<open>Acquisition and the orchestrator\<close>

text \<open>
  What happens when one exchange is asked for its position tables: the fetch function
  raises, it returns nothing (\<open>None\<close> or an empty dictionary), writing the workbook
  raises, or the tables are written.
\<close>

datatype fetch_outcome = FetchRaised | NoData | SaveRaised | Persisted

text \<open>The same for the price table of one exchange.\<close>

datatype price_outcome = PriceRaised | PriceEmpty | PriceRows

text \<open>
  The places where the progress callback is called. A callback is a Python function the
  caller passes in; all that matters of it here is at which calls it raises. The
  exception it raises is an \<open>Exception\<close> other than \<open>ImportError\<close>.
\<close>

datatype checkpoint =
    ModeNotice
  | FetchingExchange nat
  | ExchangeDone nat
  | PositionsFetched
  | PositionsFailed
  | PricesStart
  | FetchingPrices nat
  | PricesDone nat
  | PricesFetched
  | AnalysisStart
  | NoPositionFiles
  | AnalyzingContract nat
  | TermStructureStart
  | NoPriceData
  | SummaryStart
  | Finished
  | Failed

type_synonym callback = "(checkpoint \<Rightarrow> bool) option"

text \<open>A statement either lets an exception escape or completes with a value.\<close>

datatype 'a outcome = Raise | Return 'a

definition and_then :: "'a outcome \<Rightarrow> ('a \<Rightarrow> 'b outcome) \<Rightarrow> 'b outcome" where
  "and_then x f = (case x of Raise \<Rightarrow> Raise | Return v \<Rightarrow> f v)"

text \<open>\<open>if progress_callback: progress_callback(...)\<close>.\<close>

definition notify :: "callback \<Rightarrow> checkpoint \<Rightarrow> unit outcome" where
  "notify cb c = (case cb of None \<Rightarrow> Return () | Some f \<Rightarrow> if f c then Raise else Return ())"

fun notify_all :: "callback \<Rightarrow> checkpoint list \<Rightarrow> unit outcome" where
  "notify_all cb [] = Return ()"
| "notify_all cb (c # cs) = and_then (notify cb c) (\<lambda>_. notify_all cb cs)"

text \<open>
  The loop of \<open>fetch_position_data\<close>, from exchange number \<open>i\<close> on. Its state is
  \<open>success_count\<close> and (not in the source, kept to speak about it) the numbers of the
  exchanges whose fetch function has been called. Everything in the loop body is inside
  the \<open>try\<close>: an exception of the callback, of the fetch or of the save ends the round
  (\<open>continue\<close>) and the next exchange follows.
\<close>

fun fetch_position_loop ::
  "callback \<Rightarrow> nat \<Rightarrow> fetch_outcome list \<Rightarrow> nat \<times> nat list \<Rightarrow> nat \<times> nat list" where
  "fetch_position_loop cb i [] state = state"
| "fetch_position_loop cb i (src # srcs) (success_count, attempted) =
     fetch_position_loop cb (Suc i) srcs
       (case notify cb (FetchingExchange i) of
          Raise \<Rightarrow> (success_count, attempted)
        | Return _ \<Rightarrow>
            (case src of
               Persisted \<Rightarrow> (success_count + 1, attempted @ [i])
             | _ \<Rightarrow> (success_count, attempted @ [i])))"

text \<open>
  \<open>fetch_position_data\<close>: the exchanges in the order of \<open>exchange_config\<close>. The
  callback call after the loop is outside the \<open>try\<close>.
\<close>

definition fetch_position_data :: "callback \<Rightarrow> fetch_outcome list \<Rightarrow> bool outcome" where
  "fetch_position_data cb srcs =
     (case fetch_position_loop cb 0 srcs (0, []) of
        (success_count, attempted) \<Rightarrow>
          and_then (notify cb PositionsFetched) (\<lambda>_. Return (success_count > 0)))"

definition attempted_sources :: "callback \<Rightarrow> fetch_outcome list \<Rightarrow> nat list" where
  "attempted_sources cb srcs = snd (fetch_position_loop cb 0 srcs (0, []))"

text \<open>
  \<open>fetch_position_data_fast\<close>: the exchanges in the order in which their tasks
  complete. A task (\<open>_fetch_single_exchange_data_with_timeout\<close>) catches every
  exception itself and answers whether the tables were written. The callback is called
  outside the \<open>try\<close> of the loop.
\<close>

fun fetch_fast_loop :: "callback \<Rightarrow> nat \<Rightarrow> fetch_outcome list \<Rightarrow> nat \<Rightarrow> nat outcome" where
  "fetch_fast_loop cb i [] success_count = Return success_count"
| "fetch_fast_loop cb i (src # srcs) success_count =
     and_then (notify cb (ExchangeDone i)) (\<lambda>_.
       fetch_fast_loop cb (Suc i) srcs
         (case src of Persisted \<Rightarrow> success_count + 1 | _ \<Rightarrow> success_count))"

definition fetch_position_data_fast :: "callback \<Rightarrow> fetch_outcome list \<Rightarrow> bool outcome" where
  "fetch_position_data_fast cb srcs =
     and_then (fetch_fast_loop cb 0 srcs 0) (\<lambda>success_count.
     and_then (notify cb PositionsFetched) (\<lambda>_. Return (success_count > 0)))"

text \<open>
  \<open>fetch_price_data\<close>: the result is whether the merged price table has rows. The
  loop body is inside the \<open>try\<close>; the callback call after the loop is not.
\<close>

fun fetch_price_loop :: "callback \<Rightarrow> nat \<Rightarrow> price_outcome list \<Rightarrow> bool \<Rightarrow> bool" where
  "fetch_price_loop cb i [] has_rows = has_rows"
| "fetch_price_loop cb i (src # srcs) has_rows =
     fetch_price_loop cb (Suc i) srcs
       (case notify cb (FetchingPrices i) of
          Raise \<Rightarrow> has_rows
        | Return _ \<Rightarrow> (case src of PriceRows \<Rightarrow> True | _ \<Rightarrow> has_rows))"

definition fetch_price_data :: "callback \<Rightarrow> price_outcome list \<Rightarrow> bool outcome" where
  "fetch_price_data cb srcs =
     (let has_rows = fetch_price_loop cb 0 srcs False
      in and_then (notify cb PricesFetched) (\<lambda>_. Return has_rows))"

text \<open>
  \<open>fetch_price_data_fast\<close> under its \<open>smart_cache\<close> decorator: a valid cache entry
  is returned as it is, without running the function (\<open>cached\<close> says whether the
  cached table has rows); otherwise the function runs, calling the callback outside the
  \<open>try\<close> of its loop.
\<close>

fun fetch_price_fast_loop :: "callback \<Rightarrow> nat \<Rightarrow> price_outcome list \<Rightarrow> bool \<Rightarrow> bool outcome" where
  "fetch_price_fast_loop cb i [] has_rows = Return has_rows"
| "fetch_price_fast_loop cb i (src # srcs) has_rows =
     and_then (notify cb (PricesDone i)) (\<lambda>_.
       fetch_price_fast_loop cb (Suc i) srcs
         (case src of PriceRows \<Rightarrow> True | _ \<Rightarrow> has_rows))"

definition fetch_price_data_fast :: "bool option \<Rightarrow> callback \<Rightarrow> price_outcome list \<Rightarrow> bool outcome" where
  "fetch_price_data_fast cached cb srcs =
     (case cached of
        Some has_rows \<Rightarrow> Return has_rows
      | None \<Rightarrow>
          and_then (fetch_price_fast_loop cb 0 srcs False) (\<lambda>has_rows.
          and_then (notify cb PricesFetched) (\<lambda>_. Return has_rows)))"

text \<open>
  The surroundings of one run of \<open>full_analysis\<close>: whether
  \<open>performance_optimizer\<close> can be imported, the callback, what each exchange does
  when asked for positions and for prices, the price table in the cache, and the number
  of contracts \<open>load_position_data\<close> finds in the data directory.
\<close>

record env =
  use_fast_mode :: bool
  progress_callback :: callback
  position_sources :: "fetch_outcome list"
  price_sources :: "price_outcome list"
  cached_prices :: "bool option"
  loaded_contracts :: nat

text \<open>The stages of a run after the position acquisition.\<close>

datatype stage = AcquirePrices | LoadSnapshots | RunStrategies | RunTermStructure | Summarize

text \<open>Step 1 of \<open>full_analysis\<close>, in the mode chosen.\<close>

definition acquire_positions :: "env \<Rightarrow> bool outcome" where
  "acquire_positions e =
     (if use_fast_mode e
      then fetch_position_data_fast (progress_callback e) (position_sources e)
      else fetch_position_data (progress_callback e) (position_sources e))"

text \<open>
  Steps 2 to 5 of \<open>full_analysis\<close>. The strategies, the term-structure analysis and
  the summary catch their own exceptions or raise none; what can raise is the callback.
  The value is the list of the stages carried out.
\<close>

definition later_stages :: "env \<Rightarrow> stage list outcome" where
  "later_stages e =
     (let cb = progress_callback e in
      and_then (notify cb PricesStart) (\<lambda>_.
      and_then (if use_fast_mode e
                then fetch_price_data_fast (cached_prices e) cb (price_sources e)
                else fetch_price_data cb (price_sources e)) (\<lambda>has_rows.
      and_then (notify cb AnalysisStart) (\<lambda>_.
      and_then (if loaded_contracts e = 0
                then and_then (notify cb NoPositionFiles) (\<lambda>_. Return [])
                else and_then (notify_all cb (map AnalyzingContract [0..<loaded_contracts e]))
                       (\<lambda>_. Return [RunStrategies])) (\<lambda>strategies.
      and_then (notify cb TermStructureStart) (\<lambda>_.
      and_then (if has_rows then Return [RunTermStructure]
                else and_then (notify cb NoPriceData) (\<lambda>_. Return [])) (\<lambda>term.
      and_then (notify cb SummaryStart) (\<lambda>_.
      and_then (notify cb Finished) (\<lambda>_.
        Return ([AcquirePrices, LoadSnapshots] @ strategies @ term @ [Summarize]))))))))))"

text \<open>
  The outer \<open>try\<close> block of \<open>full_analysis\<close>: \<open>Return None\<close> is its
  \<open>return None\<close> after a failed acquisition, \<open>Return (Some stages)\<close> its
  \<open>return results\<close>.
\<close>

definition full_analysis_body :: "env \<Rightarrow> stage list option outcome" where
  "full_analysis_body e =
     (let cb = progress_callback e in
      and_then (notify cb ModeNotice) (\<lambda>_.
      and_then (acquire_positions e) (\<lambda>succeeded.
        if \<not> succeeded
        then and_then (notify cb PositionsFailed) (\<lambda>_. Return None)
        else and_then (later_stages e) (\<lambda>stages. Return (Some stages)))))"

text \<open>
  How a call of \<open>full_analysis\<close> ends: it returns the results, it returns \<open>None\<close>,
  or an exception leaves it (the callback raising again inside the handler).
\<close>

datatype verdict = Result "stage list" | NoResult | Propagated

definition full_analysis :: "env \<Rightarrow> verdict" where
  "full_analysis e =
     (case full_analysis_body e of
        Return (Some stages) \<Rightarrow> Result stages
      | Return None \<Rightarrow> NoResult
      | Raise \<Rightarrow>
          (case notify (progress_callback e) Failed of
             Raise \<Rightarrow> Propagated
           | Return _ \<Rightarrow> NoResult))"

text \<open>Whether a call of the callback at a checkpoint raises.\<close>

definition raises :: "callback \<Rightarrow> checkpoint \<Rightarrow> bool" where
  "raises cb c = (notify cb c = Raise)"

text \<open>
  Whether the price acquisition of a run whose callback does not raise delivers a table
  with rows.
\<close>

definition prices_have_rows :: "env \<Rightarrow> bool" where
  "prices_have_rows e =
     (if use_fast_mode e
      then (case cached_prices e of Some has_rows \<Rightarrow> has_rows
            | None \<Rightarrow> PriceRows \<in> set (price_sources e))
      else PriceRows \<in> set (price_sources e))"

section \<open>Example inputs\<close>

definition example_row :: "string \<Rightarrow> rat \<Rightarrow> rat \<Rightarrow> string \<Rightarrow> rat \<Rightarrow> rat \<Rightarrow> rat \<Rightarrow> position_row" where
  "example_row lname l lc sname s sc v =
     \<lparr>long_party_name = Text lname, long_open_interest = Some l, long_open_interest_chg = Some lc,
      short_party_name = Text sname, short_open_interest = Some s, short_open_interest_chg = Some sc,
      vol = Some v\<rparr>"

text \<open>Six qualifying rows with \<open>stat\<close> 6, 5, 4, 3, 2 and 1.\<close>

definition six_rows :: "position_row list" where
  "six_rows =
     [example_row ''a'' 60 1 ''u'' 0 0 10, example_row ''b'' 50 1 ''v'' 0 0 10,
      example_row ''c'' 40 1 ''w'' 0 0 10, example_row ''d'' 30 1 ''x'' 0 0 10,
      example_row ''e'' 20 1 ''y'' 0 0 10, example_row ''f'' 10 1 ''z'' 0 0 10]"





text \<open>A cache directory holding the value 7 under the key k, written at time 0.\<close>

definition one_entry :: "nat cache_dir" where
  "one_entry = save_to_cache Map.empty 0 ''k'' 7"

text \<open>
  The signal lists of a summary in which only the power-change strategy has signals: two
  Long signals, on two contracts of the variety M (the exchange prefix, a Chinese name
  in the source, is written \<open>DCE\<close>).
\<close>

definition one_strategy :: "(string \<times> signal_lists) list" where
  "one_strategy =
     [(''power_change'',
       \<lparr>long = [\<lparr>contract = ''DCE_m2501'', strength = Fin 800,
                  reason = LongUpShortDown (Fin 500) (Fin 300)\<rparr>,
                 \<lparr>contract = ''DCE_m2505'', strength = Fin 500,
                  reason = LongUpShortDown (Fin 300) (Fin 200)\<rparr>],
        short = []\<rparr>),
      (''spider_web'', \<lparr>long = [], short = []\<rparr>),
      (''retail_reverse'', \<lparr>long = [], short = []\<rparr>)]"



text \<open>
  A sheet with the seven canonical columns and one row, the same sheet without its
  \<open>vol\<close> column, and a \<open>position_data\<close> dictionary holding both.
\<close>

definition full_sheet :: dataframe where
  "full_sheet =
     \<lparr>columns = [''long_party_name'', ''long_open_interest'', ''long_open_interest_chg'',
                 ''short_party_name'', ''short_open_interest'', ''short_open_interest_chg'',
                 ''vol''],
      rows = [[Text ''A'', Num 100, Num 5, Text ''B'', Num 80, Num (- 3), Num 50]]\<rparr>"

definition sheet_without_vol :: dataframe where
  "sheet_without_vol =
     \<lparr>columns = [''long_party_name'', ''long_open_interest'', ''long_open_interest_chg'',
                 ''short_party_name'', ''short_open_interest'', ''short_open_interest_chg''],
      rows = [[Text ''A'', Num 100, Num 5, Text ''B'', Num 80, Num (- 3)]]\<rparr>"

definition two_sheets :: "(string \<times> dataframe) list" where
  "two_sheets = [(''DCE_m2501'', sheet_without_vol), (''DCE_m2505'', full_sheet)]"

text \<open>
  A run in standard mode without a callback in which three of the five exchanges deliver
  their position tables; the same run with a callback that raises when the price
  acquisition is announced; and a run in which no exchange delivers.
\<close>

definition partial_run :: env where
  "partial_run =
     \<lparr>use_fast_mode = False, progress_callback = None,
      position_sources = [Persisted, FetchRaised, Persisted, NoData, Persisted],
      price_sources = [PriceRows, PriceRaised, PriceEmpty, PriceRows],
      cached_prices = None, loaded_contracts = 3\<rparr>"

definition interrupted_run :: env where
  "interrupted_run = partial_run\<lparr>progress_callback := Some (\<lambda>c. c = PricesStart)\<rparr>"

definition dead_run :: env where
  "dead_run = partial_run\<lparr>position_sources := [FetchRaised, NoData, SaveRaised, NoData, FetchRaised]\<rparr>"

section \<open>Properties\<close>

subsection \<open>Term-structure classification\<close>

lemma structure_flags_char:
  "structure_flags ps (dec, inc) =
     (dec \<and> successively (\<lambda>a b. a > b) ps, inc \<and> successively (\<lambda>a b. a < b) ps)"
proof (induction ps arbitrary: dec inc rule: induct_list012)
  case (3 p q ps)
  show ?case
    by (auto simp: "3.IH"(2) not_le)
qed simp_all

lemma successively_nth:
  "successively P xs \<longleftrightarrow> (\<forall>i. Suc i < length xs \<longrightarrow> P (xs ! i) (xs ! Suc i))"
proof (induction xs rule: induct_list012)
  case (3 x y zs)
  show ?case
  proof
    assume a: "successively P (x # y # zs)"
    show "\<forall>i. Suc i < length (x # y # zs) \<longrightarrow> P ((x # y # zs) ! i) ((x # y # zs) ! Suc i)"
    proof (intro allI impI)
      fix i assume "Suc i < length (x # y # zs)"
      then show "P ((x # y # zs) ! i) ((x # y # zs) ! Suc i)"
        using a "3.IH"(2) by (cases i) auto
    qed
  next
    assume a: "\<forall>i. Suc i < length (x # y # zs) \<longrightarrow> P ((x # y # zs) ! i) ((x # y # zs) ! Suc i)"
    have "P x y" using a[rule_format, of 0] by simp
    moreover have "\<forall>i. Suc i < length (y # zs) \<longrightarrow> P ((y # zs) ! i) ((y # zs) ! Suc i)"
      using a[rule_format, of "Suc _"] by simp
    ultimately show "successively P (x # y # zs)" using "3.IH"(2) by simp
  qed
qed simp_all

text \<open>
  Claim C6. For a list of at least two close prices ordered near to far, the
  classification is "back" exactly when every price is greater than its successor,
  "contango" exactly when every price is smaller than its successor, and "flat" in every
  other case; a tie between two adjacent prices gives "flat". The three lists of the
  specification classify as back, contango and flat.
\<close>

theorem determine_structure_strict_spec:
  assumes "2 \<le> length prices"
  shows "(determine_structure_strict prices = ''back'' \<longleftrightarrow>
            (\<forall>i. Suc i < length prices \<longrightarrow> prices ! i > prices ! Suc i)) \<and>
         (determine_structure_strict prices = ''contango'' \<longleftrightarrow>
            (\<forall>i. Suc i < length prices \<longrightarrow> prices ! i < prices ! Suc i)) \<and>
         (determine_structure_strict prices = ''flat'' \<longleftrightarrow>
            \<not> (\<forall>i. Suc i < length prices \<longrightarrow> prices ! i > prices ! Suc i) \<and>
            \<not> (\<forall>i. Suc i < length prices \<longrightarrow> prices ! i < prices ! Suc i)) \<and>
         ((\<exists>i. Suc i < length prices \<and> prices ! i = prices ! Suc i) \<longrightarrow>
            determine_structure_strict prices = ''flat'') \<and>
         determine_structure_strict [100, 95, 90] = ''back'' \<and>
         determine_structure_strict [90, 95, 100] = ''contango'' \<and>
         determine_structure_strict [100, 100, 90] = ''flat''"
proof -
  let ?dec = "\<forall>i. Suc i < length prices \<longrightarrow> prices ! i > prices ! Suc i"
  let ?inc = "\<forall>i. Suc i < length prices \<longrightarrow> prices ! i < prices ! Suc i"
  have flags: "structure_flags prices (True, True) = (?dec, ?inc)"
    by (simp add: structure_flags_char successively_nth)
  have excl: "\<not> (?dec \<and> ?inc)"
  proof
    assume h: "?dec \<and> ?inc"
    from assms have "Suc 0 < length prices" by simp
    with h have "prices ! 0 > prices ! Suc 0" "prices ! 0 < prices ! Suc 0" by blast+
    then show False by simp
  qed
  have res: "determine_structure_strict prices =
      (if ?dec then ''back'' else if ?inc then ''contango'' else ''flat'')"
    using assms by (simp add: determine_structure_strict_def flags)
  have tie: "(\<exists>i. Suc i < length prices \<and> prices ! i = prices ! Suc i) \<longrightarrow> \<not> ?dec \<and> \<not> ?inc"
    by (metis less_irrefl)
  have ex1: "determine_structure_strict [100, 95, 90] = ''back''"
    by (simp add: determine_structure_strict_def)
  have ex2: "determine_structure_strict [90, 95, 100] = ''contango''"
    by (simp add: determine_structure_strict_def)
  have ex3: "determine_structure_strict [100, 100, 90] = ''flat''"
    by (simp add: determine_structure_strict_def)
  show ?thesis
    using excl tie ex1 ex2 ex3 unfolding res by auto
qed

theorem determine_structure_strict_spec_witness:
  "2 \<le> length [100, 100, 90 :: rat] \<and> determine_structure_strict [100, 100, 90] = ''flat''"
  using determine_structure_strict_spec [of "[100, 100, 90]"] by simp

subsection \<open>Power change\<close>

text \<open>
  Claim C4. For a snapshot whose total changes are the numbers \<open>dl\<close> (long) and
  \<open>ds\<close> (short), the power-change strategy returns Long with strength
  \<open>|dl| + |ds|\<close> when \<open>dl > 0\<close> and \<open>ds < 0\<close>, Short with the same
  strength when \<open>dl < 0\<close> and \<open>ds > 0\<close>, and Neutral with strength 0 in every
  other case. The witness is the specification's example: 500 and -300 give Long with
  strength 800.
\<close>

theorem analyze_power_change_spec:
  assumes "total_long_chg d = Some (Number dl)"
      and "total_short_chg d = Some (Number ds)"
  shows "(dl > 0 \<and> ds < 0 \<longrightarrow>
            fst (analyze_power_change d) = Long \<and>
            snd (snd (analyze_power_change d)) = Fin (\<bar>dl\<bar> + \<bar>ds\<bar>)) \<and>
         (dl < 0 \<and> ds > 0 \<longrightarrow>
            fst (analyze_power_change d) = Short \<and>
            snd (snd (analyze_power_change d)) = Fin (\<bar>dl\<bar> + \<bar>ds\<bar>)) \<and>
         (\<not> (dl > 0 \<and> ds < 0) \<and> \<not> (dl < 0 \<and> ds > 0) \<longrightarrow>
            fst (analyze_power_change d) = Neutral \<and>
            snd (snd (analyze_power_change d)) = Fin 0)"
  using assms
  by (simp add: analyze_power_change_def power_change_body_def lookup_def Let_def)

theorem analyze_power_change_spec_witness:
  "fst (analyze_power_change
          \<lparr>total_long = Some (Number 0), total_short = Some (Number 0),
           total_long_chg = Some (Number 500), total_short_chg = Some (Number (- 300)),
           raw_data = Some []\<rparr>) = Long \<and>
   snd (snd (analyze_power_change
          \<lparr>total_long = Some (Number 0), total_short = Some (Number 0),
           total_long_chg = Some (Number 500), total_short_chg = Some (Number (- 300)),
           raw_data = Some []\<rparr>)) = Fin 800"
  using analyze_power_change_spec
    [of "\<lparr>total_long = Some (Number 0), total_short = Some (Number 0),
           total_long_chg = Some (Number 500), total_short_chg = Some (Number (- 300)),
           raw_data = Some []\<rparr>" 500 "- 300"]
  by simp

subsection \<open>Spider web: the informed and the uninformed group\<close>

lemma cutoff_index_div: "cutoff_index n = max 2 (2 * n div 5)"
proof -
  have "of_nat n * (4 / 10 :: rat) = of_nat (2 * n) / of_nat 5" by simp
  then have "\<lfloor>of_nat n * (4 / 10 :: rat)\<rfloor> = int (2 * n div 5)"
    by (simp only: floor_divide_of_nat_eq)
  then show ?thesis by (simp add: cutoff_index_def)
qed

lemma valid_seats_rows:
  "map seat_row (valid_seats df) =
     filter (\<lambda>r. (\<exists>v. vol r = Some v \<and> v > 0) \<and> long_open_interest r \<noteq> None \<and>
                   short_open_interest r \<noteq> None) df"
  by (induction df) (auto simp: valid_seats_def valid_seat_def split: option.splits)

lemma sort_by_stat_sorted: "sorted_wrt (\<lambda>a b. stat a \<ge> stat b) (sort_by_stat xs)"
proof -
  have "sorted (map (\<lambda>s. - stat s) (sort_by_stat xs))"
    by (simp add: sort_by_stat_def)
  then show ?thesis
    by (simp add: sorted_map sorted_wrt_iff_nth_less)
qed

text \<open>
  Claim C2, as the code has it. For a snapshot with \<open>n \<ge> 5\<close> qualifying records
  (volume present and positive, both open-interest fields present), the qualifying
  records are sorted by \<open>(long + short) / volume\<close> descending, the informed group is
  exactly the first \<open>max(2, floor(0.4 n))\<close> records of that order (\<open>floor(0.4 n)\<close> is
  \<open>2 n div 5\<close>) and the uninformed group is all the remaining records. The claim's
  \<open>ceil\<close> is the code's truncation.
\<close>

theorem spider_split_spec:
  assumes "5 \<le> length (valid_seats df)"
  shows "map seat_row (valid_seats df) =
           filter (\<lambda>r. (\<exists>v. vol r = Some v \<and> v > 0) \<and> long_open_interest r \<noteq> None \<and>
                         short_open_interest r \<noteq> None) df \<and>
         fst (spider_split df) =
           take (max 2 (2 * length (valid_seats df) div 5)) (sort_by_stat (valid_seats df)) \<and>
         snd (spider_split df) =
           drop (max 2 (2 * length (valid_seats df) div 5)) (sort_by_stat (valid_seats df)) \<and>
         length (fst (spider_split df)) = max 2 (2 * length (valid_seats df) div 5) \<and>
         fst (spider_split df) @ snd (spider_split df) = sort_by_stat (valid_seats df) \<and>
         mset (sort_by_stat (valid_seats df)) = mset (valid_seats df) \<and>
         sorted_wrt (\<lambda>a b. stat a \<ge> stat b) (sort_by_stat (valid_seats df)) \<and>
         (\<forall>a \<in> set (fst (spider_split df)). \<forall>b \<in> set (snd (spider_split df)). stat a \<ge> stat b)"
proof -
  let ?n = "length (valid_seats df)"
  let ?s = "sort_by_stat (valid_seats df)"
  let ?k = "max 2 (2 * ?n div 5)"
  have len: "length ?s = ?n" by (simp add: sort_by_stat_def)
  have split: "spider_split df = (take ?k ?s, drop ?k ?s)"
    by (simp add: spider_split_def Let_def len cutoff_index_div)
  have k: "?k \<le> ?n" using assms by simp
  have srt: "sorted_wrt (\<lambda>a b. stat a \<ge> stat b) ?s" by (rule sort_by_stat_sorted)
  have "sorted_wrt (\<lambda>a b. stat a \<ge> stat b) (take ?k ?s @ drop ?k ?s)" using srt by simp
  then have cross: "\<forall>a \<in> set (take ?k ?s). \<forall>b \<in> set (drop ?k ?s). stat a \<ge> stat b"
    unfolding sorted_wrt_append by blast
  have ms: "mset ?s = mset (valid_seats df)" by (simp add: sort_by_stat_def)
  show ?thesis
    unfolding split fst_conv snd_conv using k len srt cross ms valid_seats_rows [of df] by simp
qed

theorem spider_split_spec_witness:
  "5 \<le> length (valid_seats six_rows) \<and> map stat (fst (spider_split six_rows)) = [6, 5] \<and>
   map stat (snd (spider_split six_rows)) = [4, 3, 2, 1]"
  using spider_split_spec [of six_rows]
  by (simp add: six_rows_def example_row_def valid_seats_def valid_seat_def
      sort_by_stat_def stat_def)

text \<open>
  With six qualifying records the informed group has 2 records, where
  \<open>max(2, ceil(0.4 * 6))\<close> is 3.
\<close>

theorem spider_split_ceil_counterexample:
  "5 \<le> length (valid_seats six_rows) \<and>
   length (fst (spider_split six_rows)) = 2 \<and>
   max 2 (nat \<lceil>(4 / 10 :: rat) * of_nat (length (valid_seats six_rows))\<rceil>) = 3"
proof -
  have n: "length (valid_seats six_rows) = 6"
    by (simp add: six_rows_def example_row_def valid_seats_def valid_seat_def)
  have c: "\<lceil>(12 / 5 :: rat)\<rceil> = 3"
    by (simp add: ceiling_eq_iff)
  have l: "length (fst (spider_split six_rows)) = 2"
    by (simp add: spider_split_def Let_def sort_by_stat_def n cutoff_index_div)
  show ?thesis by (simp add: n c l)
qed

subsection \<open>Retail reverse\<close>




lemma set_dict_keys [simp]: "set (dict_keys ns) = set ns"
  by (induction ns) auto










subsection \<open>The strategies never raise\<close>



subsection \<open>Cache store\<close>

text \<open>
  Claim C9. After \<open>save_to_cache\<close> of \<open>v\<close> under \<open>k\<close>, a \<open>load_from_cache\<close> of
  \<open>k\<close> at the same time (and at any later time less than the 24-hour ttl after the
  write) returns \<open>v\<close>. A load returns absent when no entry exists for the key, and
  when the entry's age \<open>now - mtime\<close> reaches or exceeds the ttl: an entry is valid
  exactly when its age is below the ttl. A load leaves the directory as it was, expired
  entry included; a save only adds or overwrites its own key; files disappear through
  \<open>clear_old_cache\<close> alone, which removes exactly the files written before its
  cut-off.
\<close>

theorem cache_get_put_spec:
  "fst (load_from_cache (save_to_cache fs now k v) now k) = Some v \<and>
   (later - now < hours 24 \<longrightarrow> fst (load_from_cache (save_to_cache fs now k v) later k) = Some v) \<and>
   (fs k = None \<longrightarrow> fst (load_from_cache fs now k) = None) \<and>
   (\<forall>f. fs k = Some f \<longrightarrow>
        fst (load_from_cache fs now k) = (if now - mtime f < hours 24 then Some (payload f) else None)) \<and>
   (\<forall>f. fs k = Some f \<and> now - mtime f \<ge> hours 24 \<longrightarrow> fst (load_from_cache fs now k) = None) \<and>
   snd (load_from_cache fs now k) = fs \<and>
   dom (save_to_cache fs now k v) = insert k (dom fs) \<and>
   (\<forall>j. clear_old_cache fs now d j =
        (case fs j of None \<Rightarrow> None
         | Some f \<Rightarrow> if mtime f < now - days d then None else Some f))"
  by (auto simp: load_from_cache_def save_to_cache_def is_cache_valid_def clear_old_cache_def
      hours_def Let_def split: option.splits)

theorem cache_get_put_spec_witness:
  "one_entry ''k'' = Some \<lparr>payload = 7, mtime = 0\<rparr> \<and>
   load_from_cache one_entry 0 ''k'' = (Some 7, one_entry) \<and>
   load_from_cache one_entry 86399 ''k'' = (Some 7, one_entry) \<and>
   load_from_cache one_entry 86400 ''k'' = (None, one_entry) \<and>
   load_from_cache one_entry 0 ''j'' = (None, one_entry) \<and>
   clear_old_cache one_entry (days 7 + 1) 7 ''k'' = None"
  using cache_get_put_spec [of one_entry 86400 "''k''" 7 0 7]
  by (simp add: one_entry_def load_from_cache_def save_to_cache_def is_cache_valid_def
      clear_old_cache_def hours_def days_def)

subsection \<open>Ordering contracts by month\<close>

lemma digit_value_le: "is_digit c \<Longrightarrow> digit_value c \<le> 9"
  by (auto simp: is_digit_def digit_value_def)

lemma match_yymm_Some:
  "match_yymm s = Some y \<Longrightarrow> length y = 4 \<and> list_all is_digit y"
  by (auto simp: match_yymm_def Let_def split: if_splits)

lemma two_digits_le:
  assumes "length ds = 2" "list_all is_digit ds"
  shows "int_of_digits ds \<le> 99"
proof -
  from assms obtain a b where ds: "ds = [a, b]"
    by (cases ds; cases "tl ds") auto
  with assms have "digit_value a \<le> 9" "digit_value b \<le> 9"
    by (auto intro: digit_value_le)
  then show ?thesis by (simp add: ds int_of_digits_def)
qed

text \<open>A symbol the pattern matches has a key of at most 204999, below 999999.\<close>

lemma parsable_key_bound:
  assumes "match_yymm s = Some y"
  shows "extract_month_info s \<le> 204999"
proof -
  from match_yymm_Some [OF assms] have l: "length y = 4" and d: "list_all is_digit y" by auto
  have a: "int_of_digits (take 2 y) \<le> 99"
    using l d by (intro two_digits_le) (auto simp: list_all_iff dest: in_set_takeD)
  have b: "int_of_digits (drop 2 y) \<le> 99"
    using l d by (intro two_digits_le) (auto simp: list_all_iff dest: in_set_dropD)
  show ?thesis
    using a b by (auto simp: extract_month_info_def assms Let_def)
qed

lemma unmatched_key_greater:
  "match_yymm s = None \<Longrightarrow> match_yymm t \<noteq> None \<Longrightarrow> extract_month_info t < extract_month_info s"
  using parsable_key_bound [of t] by (auto simp: extract_month_info_def)


subsection \<open>Signal resonance\<close>

lemma extract_symbol_m2501: "extract_symbol ''DCE_m2501'' = ''M''"
  by (simp add: extract_symbol_def last_part_def isalpha_def upper_def lower_case_def
      upper_case_def Let_def)

lemma extract_symbol_m2505: "extract_symbol ''DCE_m2505'' = ''M''"
  by (simp add: extract_symbol_def last_part_def isalpha_def upper_def lower_case_def
      upper_case_def Let_def)

text \<open>
  Claim C1 at a summary in which only the power-change strategy has signals, two of
  them Long on contracts of the variety M. One distinct strategy contributed for M, so
  the claim keeps M out of the resonance output; the code counts signals, reaches 2 and
  reports M, listing the same strategy twice.
\<close>

theorem resonance_same_strategy:
  "contributing_strategies long one_strategy ''M'' = [''power_change''] \<and>
   fst (calculate_signal_resonance one_strategy) ''M'' =
     Some \<lparr>count_n = 2, strategies = [''power_change'', ''power_change''],
           contracts = [''DCE_m2501'', ''DCE_m2505'']\<rparr>"
  by (simp add: calculate_signal_resonance_def keep_resonance_def symbol_counts_def
      count_signal_def contributing_strategies_def one_strategy_def
      extract_symbol_m2501 extract_symbol_m2505 Let_def)

subsection \<open>A table without a required column\<close>

lemma process_missing:
  "\<not> set required_columns \<subseteq> set (columns (standardize_columns df)) \<Longrightarrow>
   process_position_data tn df = None"
  by (auto simp: process_position_data_def Let_def list_all_iff)

lemma foldl_analyze_filter:
  "foldl (analyze_contract tn seats) m pd =
   foldl (analyze_contract tn seats) m
     (filter (\<lambda>(n, df). process_position_data tn df \<noteq> None) pd)"
  by (induction pd arbitrary: m) (auto simp: analyze_contract_def split: option.splits)

lemma foldl_analyze_dom:
  "dom (foldl (analyze_contract tn seats) m pd) \<subseteq> dom m \<union> fst ` set pd"
proof (induction pd arbitrary: m)
  case Nil
  show ?case by simp
next
  case (Cons e pd)
  have "dom (analyze_contract tn seats m e) \<subseteq> dom m \<union> {fst e}"
    by (cases e) (auto simp: analyze_contract_def split: option.splits if_splits)
  with Cons.IH [of "analyze_contract tn seats m e"] show ?case by auto
qed

text \<open>
  Claim C10. If a contract's table, after the columns are standardized, lacks one of
  the seven required columns, processing returns no data for it, and the position
  analysis has no entry for the contract: the results are those of the same run without
  the contract, so no strategy result, no Error signal and no other record of the skip
  is stored for it.
\<close>

theorem missing_columns_omitted:
  assumes "\<not> set required_columns \<subseteq> set (columns (standardize_columns df))"
      and "distinct (map fst position_data)"
      and "(name, df) \<in> set position_data"
  shows "process_position_data tn df = None \<and>
         analyze_positions tn seats position_data name = None \<and>
         analyze_positions tn seats position_data =
           analyze_positions tn seats (filter (\<lambda>(n, d). n \<noteq> name) position_data)"
proof -
  let ?ok = "\<lambda>(n, d). process_position_data tn d \<noteq> None"
  have none: "process_position_data tn df = None"
    using assms(1) by (rule process_missing)
  have only: "\<And>n d. (n, d) \<in> set position_data \<Longrightarrow> n = name \<Longrightarrow> d = df"
    using assms(2,3) by (meson eq_key_imp_eq_value)
  have same: "filter ?ok position_data = filter ?ok (filter (\<lambda>(n, d). n \<noteq> name) position_data)"
    unfolding filter_filter using none only by (intro filter_cong) auto
  have eq: "analyze_positions tn seats position_data =
           analyze_positions tn seats (filter (\<lambda>(n, d). n \<noteq> name) position_data)"
    unfolding analyze_positions_def
    by (subst foldl_analyze_filter, subst (2) foldl_analyze_filter, simp only: same)
  have "name \<notin> fst ` set (filter (\<lambda>(n, d). n \<noteq> name) position_data)" by auto
  with foldl_analyze_dom [of tn seats Map.empty "filter (\<lambda>(n, d). n \<noteq> name) position_data"]
  have "name \<notin> dom (analyze_positions tn seats (filter (\<lambda>(n, d). n \<noteq> name) position_data))"
    unfolding analyze_positions_def by auto
  then have "analyze_positions tn seats position_data name = None"
    using eq by auto
  with none eq show ?thesis by simp
qed

theorem missing_columns_omitted_witness:
  "\<not> set required_columns \<subseteq> set (columns (standardize_columns sheet_without_vol)) \<and>
   distinct (map fst two_sheets) \<and>
   (''DCE_m2501'', sheet_without_vol) \<in> set two_sheets \<and>
   process_position_data (\<lambda>s. None) sheet_without_vol = None \<and>
   analyze_positions (\<lambda>s. None) [''A''] two_sheets ''DCE_m2501'' = None \<and>
   analyze_positions (\<lambda>s. None) [''A''] two_sheets ''DCE_m2505'' \<noteq> None"
proof -
  have h1: "\<not> set required_columns \<subseteq> set (columns (standardize_columns sheet_without_vol))"
    by (simp add: required_columns_def standardize_columns_def sheet_without_vol_def)
  have h2: "distinct (map fst two_sheets)"
    by (simp add: two_sheets_def)
  have h3: "(''DCE_m2501'', sheet_without_vol) \<in> set two_sheets"
    by (simp add: two_sheets_def)
  have ok: "process_position_data (\<lambda>s. None) full_sheet \<noteq> None"
    by (simp add: process_position_data_def required_columns_def standardize_columns_def
        full_sheet_def Let_def)
  have other: "analyze_positions (\<lambda>s. None) [''A''] two_sheets ''DCE_m2505'' \<noteq> None"
    using ok
    by (auto simp: analyze_positions_def two_sheets_def analyze_contract_def
        split: option.splits)
  have skipped: "process_position_data (\<lambda>s. None) sheet_without_vol = None \<and>
      analyze_positions (\<lambda>s. None) [''A''] two_sheets ''DCE_m2501'' = None"
    using missing_columns_omitted [OF h1 h2 h3, of "\<lambda>s. None" "[''A'']"] by blast
  show ?thesis
    using skipped h1 h2 h3 other by blast
qed

subsection \<open>Acquisition and fatal abort\<close>

lemma notify_cases: "notify cb c = Raise \<or> notify cb c = Return ()"
  by (auto simp: notify_def split: option.splits)

lemma not_raises: "\<not> raises cb c \<longleftrightarrow> notify cb c = Return ()"
  using notify_cases [of cb c] by (auto simp: raises_def)

lemma fetch_position_loop_count:
  "0 < fst (fetch_position_loop cb i srcs (n, att)) \<longleftrightarrow>
     0 < n \<or> (\<exists>j < length srcs. \<not> raises cb (FetchingExchange (i + j)) \<and> srcs ! j = Persisted)"
proof (induction srcs arbitrary: i n att)
  case Nil
  show ?case by simp
next
  case (Cons src srcs)
  have ex: "(\<exists>j < length (src # srcs). \<not> raises cb (FetchingExchange (i + j)) \<and> (src # srcs) ! j = Persisted)
      \<longleftrightarrow> (\<not> raises cb (FetchingExchange i) \<and> src = Persisted) \<or>
          (\<exists>j < length srcs. \<not> raises cb (FetchingExchange (Suc i + j)) \<and> srcs ! j = Persisted)"
    (is "?A \<longleftrightarrow> ?B \<or> ?C")
  proof
    assume ?A
    then obtain j where j: "j < length (src # srcs)" "\<not> raises cb (FetchingExchange (i + j))"
      "(src # srcs) ! j = Persisted" by blast
    show "?B \<or> ?C"
    proof (cases j)
      case 0
      with j show ?thesis by simp
    next
      case (Suc k)
      with j have "k < length srcs \<and> \<not> raises cb (FetchingExchange (Suc i + k)) \<and> srcs ! k = Persisted"
        by simp
      then show ?thesis by blast
    qed
  next
    assume "?B \<or> ?C"
    then show ?A
    proof
      assume ?B
      then have "0 < length (src # srcs) \<and> \<not> raises cb (FetchingExchange (i + 0)) \<and>
          (src # srcs) ! 0 = Persisted" by simp
      then show ?A by blast
    next
      assume ?C
      then obtain k where "k < length srcs" "\<not> raises cb (FetchingExchange (Suc i + k))"
        "srcs ! k = Persisted" by blast
      then have "Suc k < length (src # srcs) \<and> \<not> raises cb (FetchingExchange (i + Suc k)) \<and>
          (src # srcs) ! Suc k = Persisted" by simp
      then show ?A by blast
    qed
  qed
  obtain att' where step: "fetch_position_loop cb i (src # srcs) (n, att) =
      fetch_position_loop cb (Suc i) srcs
        (n + (if \<not> raises cb (FetchingExchange i) \<and> src = Persisted then 1 else 0), att')"
    using notify_cases [of cb "FetchingExchange i"]
    by (cases src) (auto simp: raises_def)
  show ?case
    unfolding step Cons.IH ex by auto
qed

lemma fetch_position_loop_attempted:
  "snd (fetch_position_loop cb i srcs (n, att)) =
     att @ filter (\<lambda>j. \<not> raises cb (FetchingExchange j)) [i ..< i + length srcs]"
proof (induction srcs arbitrary: i n att)
  case Nil
  show ?case by simp
next
  case (Cons src srcs)
  have up: "[i ..< i + length (src # srcs)] = i # [Suc i ..< Suc i + length srcs]"
    using upt_conv_Cons [of i "i + length (src # srcs)"] by simp
  obtain n' where step: "fetch_position_loop cb i (src # srcs) (n, att) =
      fetch_position_loop cb (Suc i) srcs
        (n', att @ (if \<not> raises cb (FetchingExchange i) then [i] else []))"
    using notify_cases [of cb "FetchingExchange i"]
    by (cases src) (auto simp: raises_def)
  show ?case
    unfolding step Cons.IH up by simp
qed

lemma fetch_position_data_value:
  "\<not> raises cb PositionsFetched \<Longrightarrow>
   fetch_position_data cb srcs =
     Return (\<exists>j < length srcs. \<not> raises cb (FetchingExchange j) \<and> srcs ! j = Persisted)"
  using fetch_position_loop_count [of cb 0 srcs 0 "[]"]
  by (auto simp: fetch_position_data_def and_then_def not_raises split: prod.splits)

lemma attempted_sources_value:
  "attempted_sources cb srcs = filter (\<lambda>j. \<not> raises cb (FetchingExchange j)) [0 ..< length srcs]"
  using fetch_position_loop_attempted [of cb 0 srcs 0 "[]"]
  by (simp add: attempted_sources_def)


lemma quiet_notify: "\<forall>c. \<not> raises cb c \<Longrightarrow> notify cb c = Return ()"
  by (simp add: not_raises)

lemma quiet_notify_all: "\<forall>c. \<not> raises cb c \<Longrightarrow> notify_all cb cs = Return ()"
  by (induction cs) (simp_all add: quiet_notify and_then_def)

lemma quiet_fetch_fast_loop:
  assumes "\<forall>c. \<not> raises cb c"
  shows "\<exists>m. fetch_fast_loop cb i srcs n = Return m \<and> (0 < m \<longleftrightarrow> 0 < n \<or> Persisted \<in> set srcs)"
proof (induction srcs arbitrary: i n)
  case Nil
  show ?case by simp
next
  case (Cons src srcs)
  show ?case
    using Cons.IH [of "Suc i" "case src of Persisted \<Rightarrow> n + 1 | _ \<Rightarrow> n"]
    by (cases src) (auto simp: quiet_notify [OF assms] and_then_def)
qed

lemma quiet_fetch_price_loop:
  assumes "\<forall>c. \<not> raises cb c"
  shows "fetch_price_loop cb i srcs h = (h \<or> PriceRows \<in> set srcs)"
proof (induction srcs arbitrary: i h)
  case Nil
  show ?case by simp
next
  case (Cons src srcs)
  show ?case
    by (cases src) (auto simp: Cons.IH quiet_notify [OF assms])
qed

lemma quiet_fetch_price_fast_loop:
  assumes "\<forall>c. \<not> raises cb c"
  shows "fetch_price_fast_loop cb i srcs h = Return (h \<or> PriceRows \<in> set srcs)"
proof (induction srcs arbitrary: i h)
  case Nil
  show ?case by simp
next
  case (Cons src srcs)
  show ?case
    by (cases src) (auto simp: Cons.IH quiet_notify [OF assms] and_then_def)
qed

lemma persisted_nth: "(\<exists>j < length srcs. srcs ! j = Persisted) \<longleftrightarrow> Persisted \<in> set srcs"
  by (auto simp: in_set_conv_nth)

lemma quiet_acquire_positions:
  assumes "\<forall>c. \<not> raises (progress_callback e) c"
  shows "acquire_positions e = Return (Persisted \<in> set (position_sources e))"
proof (cases "use_fast_mode e")
  case True
  obtain m where "fetch_fast_loop (progress_callback e) 0 (position_sources e) 0 = Return m"
    and "0 < m \<longleftrightarrow> Persisted \<in> set (position_sources e)"
    using quiet_fetch_fast_loop [OF assms, of 0 "position_sources e" 0] by auto
  then show ?thesis
    using True
    by (simp add: acquire_positions_def fetch_position_data_fast_def and_then_def
        quiet_notify [OF assms])
next
  case False
  have "\<not> raises (progress_callback e) PositionsFetched" using assms by simp
  from fetch_position_data_value [OF this, of "position_sources e"] show ?thesis
    using False assms by (simp add: acquire_positions_def persisted_nth)
qed

lemma quiet_later_stages:
  assumes "\<forall>c. \<not> raises (progress_callback e) c"
  shows "later_stages e =
     Return ([AcquirePrices, LoadSnapshots] @
             (if loaded_contracts e = 0 then [] else [RunStrategies]) @
             (if prices_have_rows e then [RunTermStructure] else []) @ [Summarize])"
proof -
  have prices: "(if use_fast_mode e
                then fetch_price_data_fast (cached_prices e) (progress_callback e) (price_sources e)
                else fetch_price_data (progress_callback e) (price_sources e)) =
        Return (prices_have_rows e)"
    by (simp add: fetch_price_data_fast_def fetch_price_data_def prices_have_rows_def Let_def
        and_then_def quiet_notify [OF assms] quiet_fetch_price_loop [OF assms]
        quiet_fetch_price_fast_loop [OF assms] split: option.splits)
  show ?thesis
    unfolding later_stages_def Let_def prices
    by (simp add: and_then_def quiet_notify [OF assms] quiet_notify_all [OF assms])
qed

lemma result_needs_acquisition:
  "full_analysis e = Result st \<Longrightarrow> acquire_positions e = Return True"
  by (auto simp: full_analysis_def full_analysis_body_def Let_def and_then_def
      split: outcome.splits option.splits if_splits)

lemma quiet_full_analysis:
  assumes "\<forall>c. \<not> raises (progress_callback e) c"
  shows "full_analysis e =
     (if Persisted \<in> set (position_sources e)
      then Result ([AcquirePrices, LoadSnapshots] @
             (if loaded_contracts e = 0 then [] else [RunStrategies]) @
             (if prices_have_rows e then [RunTermStructure] else []) @ [Summarize])
      else NoResult)"
  by (simp add: full_analysis_def full_analysis_body_def Let_def and_then_def
      quiet_notify [OF assms] quiet_acquire_positions [OF assms] quiet_later_stages [OF assms])

text \<open>
  Claim C3, as the code has it. Position acquisition reports success exactly when at
  least one exchange, among those whose announcement the callback let through, delivered
  and wrote its tables; the failure of one exchange is caught and every other exchange is
  still attempted; without a callback: success exactly when some exchange delivered and
  wrote, and all exchanges attempted. The full analysis never returns a result unless
  acquisition reported success, and when acquisition reports no success it returns no
  result (or the exception of a callback that raises again leaves it). It also returns
  no result when an exception reaches its outer handler in a later stage. When the
  callback never raises (in particular when there is none), the full analysis returns no
  result exactly when acquisition reports no successful exchange, and otherwise returns
  the results after price acquisition, snapshot loading, the strategies (when contracts
  were loaded), the term-structure analysis (when the price table has rows) and the
  summary.
\<close>

theorem acquisition_and_abort:
  "(\<not> raises cb PositionsFetched \<longrightarrow>
      fetch_position_data cb srcs =
        Return (\<exists>j < length srcs. \<not> raises cb (FetchingExchange j) \<and> srcs ! j = Persisted)) \<and>
   attempted_sources cb srcs = filter (\<lambda>j. \<not> raises cb (FetchingExchange j)) [0 ..< length srcs] \<and>
   fetch_position_data None srcs = Return (Persisted \<in> set srcs) \<and>
   attempted_sources None srcs = [0 ..< length srcs] \<and>
   (\<forall>st. full_analysis e = Result st \<longrightarrow> acquire_positions e = Return True) \<and>
   (acquire_positions e = Return False \<longrightarrow>
      full_analysis e = NoResult \<or> full_analysis e = Propagated) \<and>
   ((\<forall>c. \<not> raises (progress_callback e) c) \<longrightarrow>
      acquire_positions e = Return (Persisted \<in> set (position_sources e)) \<and>
      full_analysis e =
        (if Persisted \<in> set (position_sources e)
         then Result ([AcquirePrices, LoadSnapshots] @
                (if loaded_contracts e = 0 then [] else [RunStrategies]) @
                (if prices_have_rows e then [RunTermStructure] else []) @ [Summarize])
         else NoResult))"
proof -
  have none: "\<And>c. \<not> raises None c"
    by (simp add: raises_def notify_def)
  have a: "\<not> raises cb PositionsFetched \<longrightarrow>
      fetch_position_data cb srcs =
        Return (\<exists>j < length srcs. \<not> raises cb (FetchingExchange j) \<and> srcs ! j = Persisted)"
    using fetch_position_data_value by blast
  have b: "attempted_sources cb srcs =
      filter (\<lambda>j. \<not> raises cb (FetchingExchange j)) [0 ..< length srcs]"
    by (rule attempted_sources_value)
  have c: "fetch_position_data None srcs = Return (Persisted \<in> set srcs)"
    using fetch_position_data_value [of None srcs] none by (simp add: persisted_nth)
  have d: "attempted_sources None srcs = [0 ..< length srcs]"
    using attempted_sources_value [of None srcs] none by simp
  have f: "\<forall>st. full_analysis e = Result st \<longrightarrow> acquire_positions e = Return True"
    using result_needs_acquisition by blast
  have g: "acquire_positions e = Return False \<longrightarrow>
      full_analysis e = NoResult \<or> full_analysis e = Propagated"
    using f by (cases "full_analysis e") auto
  have h: "(\<forall>c. \<not> raises (progress_callback e) c) \<longrightarrow>
      acquire_positions e = Return (Persisted \<in> set (position_sources e)) \<and>
      full_analysis e =
        (if Persisted \<in> set (position_sources e)
         then Result ([AcquirePrices, LoadSnapshots] @
                (if loaded_contracts e = 0 then [] else [RunStrategies]) @
                (if prices_have_rows e then [RunTermStructure] else []) @ [Summarize])
         else NoResult)"
    using quiet_acquire_positions quiet_full_analysis by blast
  show ?thesis
    using a b c d f g h by blast
qed

theorem acquisition_and_abort_witness:
  "(\<forall>c. \<not> raises (progress_callback partial_run) c) \<and>
   fetch_position_data None (position_sources partial_run) = Return True \<and>
   attempted_sources None (position_sources partial_run) = [0, 1, 2, 3, 4] \<and>
   full_analysis partial_run =
     Result [AcquirePrices, LoadSnapshots, RunStrategies, RunTermStructure, Summarize] \<and>
   (\<forall>c. \<not> raises (progress_callback dead_run) c) \<and>
   acquire_positions dead_run = Return False \<and>
   full_analysis dead_run = NoResult"
proof -
  have q1: "\<forall>c. \<not> raises (progress_callback partial_run) c"
    by (simp add: partial_run_def raises_def notify_def)
  have q2: "\<forall>c. \<not> raises (progress_callback dead_run) c"
    by (simp add: dead_run_def partial_run_def raises_def notify_def)
  note t1 = acquisition_and_abort [of None "position_sources partial_run" partial_run]
  note t2 = acquisition_and_abort [of None "position_sources dead_run" dead_run]
  from t1 have f1: "fetch_position_data None (position_sources partial_run) =
      Return (Persisted \<in> set (position_sources partial_run))" by blast
  from t1 have a1: "attempted_sources None (position_sources partial_run) =
      [0 ..< length (position_sources partial_run)]" by blast
  from t1 q1 have r1: "full_analysis partial_run =
        (if Persisted \<in> set (position_sources partial_run)
         then Result ([AcquirePrices, LoadSnapshots] @
                (if loaded_contracts partial_run = 0 then [] else [RunStrategies]) @
                (if prices_have_rows partial_run then [RunTermStructure] else []) @ [Summarize])
         else NoResult)" by blast
  from t2 q2 have p2: "acquire_positions dead_run = Return (Persisted \<in> set (position_sources dead_run))"
    by blast
  from t2 q2 have r2: "full_analysis dead_run =
        (if Persisted \<in> set (position_sources dead_run)
         then Result ([AcquirePrices, LoadSnapshots] @
                (if loaded_contracts dead_run = 0 then [] else [RunStrategies]) @
                (if prices_have_rows dead_run then [RunTermStructure] else []) @ [Summarize])
         else NoResult)" by blast
  have up: "[0 ..< 5] = [0, 1, 2, 3, 4 :: nat]"
    by (simp add: upt_rec)
  have v1: "fetch_position_data None (position_sources partial_run) = Return True"
    unfolding f1 by (simp add: partial_run_def)
  have v2: "attempted_sources None (position_sources partial_run) = [0, 1, 2, 3, 4]"
    unfolding a1 by (simp add: partial_run_def up)
  have v3: "full_analysis partial_run =
     Result [AcquirePrices, LoadSnapshots, RunStrategies, RunTermStructure, Summarize]"
    unfolding r1 by (simp add: partial_run_def prices_have_rows_def)
  have v4: "acquire_positions dead_run = Return False"
    unfolding p2 by (simp add: dead_run_def partial_run_def)
  have v5: "full_analysis dead_run = NoResult"
    unfolding r2 by (simp add: dead_run_def partial_run_def)
  show ?thesis
    using q1 q2 v1 v2 v3 v4 v5 by blast
qed

text \<open>
  Three exchanges deliver, so acquisition reports success; the callback raises when the
  price acquisition is announced, the outer handler catches the exception, and the full
  analysis returns no result.
\<close>

theorem full_analysis_abort_counterexample:
  "acquire_positions interrupted_run = Return True \<and>
   full_analysis interrupted_run = NoResult"
  by (simp add: interrupted_run_def partial_run_def full_analysis_def full_analysis_body_def
      acquire_positions_def fetch_position_data_def later_stages_def and_then_def notify_def
      Let_def)

end
